theory Spec2Isabelle
  imports Complex_Main
begin

section \<open>The animation controller of src/script.js (class NASA_AnimationController)\<close>

text \<open>
  The theory embeds the tween registry, the frame tick and the per-frame callback list of
  \<^verbatim>\<open>NASA_AnimationController\<close> (src/script.js, lines 204 to 437).

  Conventions of the embedding.
  \<^item> A JavaScript number is a \<open>jsnum\<close>: a real, or \<open>NaN\<close>. Rounding, overflow and the
    infinities of IEEE doubles are not represented. The only places where the engine can
    produce a non-finite number from finite inputs are the division
    \<^verbatim>\<open>currentTime / duration\<close> and the read \<^verbatim>\<open>animation.to[i]\<close> past the end of the
    array; both are written out below.
  \<^item> A user callback is a function from its arguments to \<open>Returns\<close> or \<open>Throws\<close>. Each
    invocation is recorded in the controller's \<open>trace\<close>, a ghost field. Callbacks are
    observers: they do not call back into the controller and do not mutate the tween
    they are handed (the third argument of \<^verbatim>\<open>onUpdate\<close> is therefore left out).
  \<^item> A method that an exception can leave returns an \<open>outcome\<close>: \<open>Returned s\<close> when it
    ran to its end in state \<open>s\<close>, \<open>Threw s\<close> when an exception escaped it, \<open>s\<close> being the
    state as mutated up to the throw.
  \<^item> \<^verbatim>\<open>updatePhysics\<close> only reads and writes the DOM and is left out, as are the
    \<^verbatim>\<open>rafIds\<close> map (never populated) and the scheduling handle.
\<close>

subsection \<open>Values\<close>

datatype jsnum = Fin real | NaN

text \<open>
  The values a tween interpolates: \<open>Num\<close> is a value with \<^verbatim>\<open>typeof v === 'number'\<close>,
  \<open>Arr\<close> one with \<^verbatim>\<open>Array.isArray(v)\<close> (its elements numbers), \<open>Undefined\<close> the
  value of a property that was never assigned, \<open>Other\<close> any other value.
\<close>

datatype jsval = Undefined | Num jsnum | Arr "jsnum list" | Other

fun num_add :: "jsnum \<Rightarrow> jsnum \<Rightarrow> jsnum" where
  "num_add (Fin a) (Fin b) = Fin (a + b)"
| "num_add _ _ = NaN"

fun num_sub :: "jsnum \<Rightarrow> jsnum \<Rightarrow> jsnum" where
  "num_sub (Fin a) (Fin b) = Fin (a - b)"
| "num_sub _ _ = NaN"

fun num_mul :: "jsnum \<Rightarrow> jsnum \<Rightarrow> jsnum" where
  "num_mul (Fin a) (Fin b) = Fin (a * b)"
| "num_mul _ _ = NaN"

text \<open>Comparisons with a constant; every comparison with \<open>NaN\<close> is false.\<close>

fun num_ge :: "jsnum \<Rightarrow> real \<Rightarrow> bool" where
  "num_ge (Fin a) b = (b \<le> a)"
| "num_ge NaN b = False"

fun num_le :: "jsnum \<Rightarrow> real \<Rightarrow> bool" where
  "num_le (Fin a) b = (a \<le> b)"
| "num_le NaN b = False"

text \<open>\<^verbatim>\<open>xs[i]\<close> used as a number: past the end it is \<^verbatim>\<open>undefined\<close>, which arithmetic
  turns into \<open>NaN\<close>.\<close>

definition index_num :: "jsnum list \<Rightarrow> nat \<Rightarrow> jsnum" where
  "index_num xs i = (if i < length xs then xs ! i else NaN)"

text \<open>\<^verbatim>\<open>Math.max(0, Math.min(1, currentTime / duration))\<close> for finite operands. With
  \<^verbatim>\<open>duration\<close> zero the quotient is \<^verbatim>\<open>NaN\<close> (0/0), \<^verbatim>\<open>Infinity\<close> or
  \<^verbatim>\<open>-Infinity\<close>; \<^verbatim>\<open>Math.min\<close> and \<^verbatim>\<open>Math.max\<close> return \<^verbatim>\<open>NaN\<close> on \<^verbatim>\<open>NaN\<close>
  and clamp the infinities.\<close>

definition clamped_ratio :: "real \<Rightarrow> real \<Rightarrow> jsnum" where
  "clamped_ratio t d =
     (if d = 0 then (if t = 0 then NaN else if 0 < t then Fin 1 else Fin 0)
      else Fin (max 0 (min 1 (t / d))))"

subsection \<open>Easing functions (getEasingFunction)\<close>

definition easeInOutQuad :: "real \<Rightarrow> real" where
  "easeInOutQuad t = (if t < 0.5 then 2 * t * t else 1 - (-2 * t + 2) ^ 2 / 2)"

definition easeInOutCubic :: "real \<Rightarrow> real" where
  "easeInOutCubic t = (if t < 0.5 then 4 * t * t * t else 1 - (-2 * t + 2) ^ 3 / 2)"

definition easeOutElastic :: "real \<Rightarrow> real" where
  "easeOutElastic t =
     (let c4 = (2 * pi) / 3
      in if t = 0 then 0 else if t = 1 then 1
         else 2 powr (-10 * t) * sin ((t * 10 - 0.75) * c4) + 1)"

definition easeOutBounce :: "real \<Rightarrow> real" where
  "easeOutBounce t =
     (let n1 = 7.5625; d1 = 2.75
      in if t < 1 / d1 then n1 * t * t
         else if t < 2 / d1 then (let t' = t - 1.5 / d1 in n1 * t' * t' + 0.75)
         else if t < 2.5 / d1 then (let t' = t - 2.25 / d1 in n1 * t' * t' + 0.9375)
         else (let t' = t - 2.625 / d1 in n1 * t' * t' + 0.984375))"

definition easeLaunch :: "real \<Rightarrow> real" where
  "easeLaunch t = 1 - (1 - t) ^ 3"

definition easeOrbit :: "real \<Rightarrow> real" where
  "easeOrbit t = (if t < 0.5 then 2 * t * t else 1 - (-2 * t + 2) ^ 2 / 2)"

text \<open>Every easing formula of the source yields \<open>NaN\<close> on \<open>NaN\<close> (its comparisons are
  false and its arithmetic propagates), so a curve on reals is lifted pointwise.\<close>

fun on_num :: "(real \<Rightarrow> real) \<Rightarrow> jsnum \<Rightarrow> jsnum" where
  "on_num f (Fin t) = Fin (f t)"
| "on_num f NaN = NaN"

text \<open>The value of \<^verbatim>\<open>config.easing\<close>, when it has one: a key of the table
  \<^verbatim>\<open>easingFunctions\<close>, or \<open>OtherName\<close>, a string that names no property of the table
  object, neither its own nor an inherited one (the empty string is one). The names of the
  properties of \<^verbatim>\<open>Object.prototype\<close> (\<^verbatim>\<open>constructor\<close>, \<^verbatim>\<open>toString\<close>,
  \<^verbatim>\<open>__proto__\<close> and the like) are outside this type: the lookup finds the inherited
  value for them, which is no easing curve.\<close>

datatype easing_name =
    EaseInOutQuad
  | EaseInOutCubic
  | EaseOutElastic
  | EaseOutBounce
  | EaseLaunch
  | EaseOrbit
  | OtherName

definition easingFunctions :: "(easing_name \<times> (jsnum \<Rightarrow> jsnum)) list" where
  "easingFunctions =
     [(EaseInOutQuad, on_num easeInOutQuad),
      (EaseInOutCubic, on_num easeInOutCubic),
      (EaseOutElastic, on_num easeOutElastic),
      (EaseOutBounce, on_num easeOutBounce),
      (EaseLaunch, on_num easeLaunch),
      (EaseOrbit, on_num easeOrbit)]"

text \<open>\<^verbatim>\<open>easingFunctions[name] || easingFunctions.easeInOutQuad\<close>\<close>

definition getEasingFunction :: "easing_name \<Rightarrow> (jsnum \<Rightarrow> jsnum)" where
  "getEasingFunction name =
     (case map_of easingFunctions name of
        Some f \<Rightarrow> f
      | None \<Rightarrow> on_num easeInOutQuad)"

subsection \<open>Tweens and the controller\<close>

datatype cb_result = Returns | Throws

datatype 's outcome = returned: Returned (state_of: 's) | threw: Threw (state_of: 's)

record tween =
  fromVal :: jsval
  toVal :: jsval
  duration :: real
  currentValue :: jsval
  currentTime :: real
  progress :: jsnum
  isPlaying :: bool
  isComplete :: bool
  reverse :: bool
  yoyo :: bool
  repeat :: int
  repeatCount :: int
  onUpdate :: "jsval \<Rightarrow> jsnum \<Rightarrow> cb_result"
  onComplete :: "unit \<Rightarrow> cb_result"
  onStart :: "unit \<Rightarrow> cb_result"
  easing :: "jsnum \<Rightarrow> jsnum"

text \<open>The \<^verbatim>\<open>config\<close> argument of \<^verbatim>\<open>createAnimation\<close>. An optional property is an
  \<open>option\<close>, \<open>None\<close> when it is absent. \<open>cfg_currentValue\<close> is the config's own
  \<^verbatim>\<open>currentValue\<close> property, \<open>Undefined\<close> when it has none: the spread copies it and
  nothing overwrites it.\<close>

record config =
  cfg_from :: jsval
  cfg_to :: jsval
  cfg_duration :: real
  cfg_currentValue :: jsval
  cfg_easing :: "easing_name option"
  cfg_onUpdate :: "(jsval \<Rightarrow> jsnum \<Rightarrow> cb_result) option"
  cfg_onComplete :: "(unit \<Rightarrow> cb_result) option"
  cfg_onStart :: "(unit \<Rightarrow> cb_result) option"
  cfg_yoyo :: "bool option"
  cfg_repeat :: "int option"

text \<open>A per-frame callback; \<open>cb_id\<close> stands for the identity of the function object.\<close>

record callback =
  cb_id :: nat
  cb_run :: "real \<Rightarrow> real \<Rightarrow> cb_result"

datatype event =
    Started string
  | Updated string jsval jsnum
  | Completed string
  | Invoked nat real real
  | ConsoleError nat

text \<open>\<open>animations\<close> is the \<^verbatim>\<open>Map\<close>, as the list of its entries in insertion order.\<close>

record controller =
  animations :: "(string \<times> tween) list"
  timeScale :: real
  isPaused :: bool
  lastTimestamp :: real
  deltaTime :: real
  maxDelta :: real
  animationCallbacks :: "callback list"
  physicsEnabled :: bool
  trace :: "event list"

definition new_controller :: controller where
  "new_controller =
     \<lparr>animations = [], timeScale = 1, isPaused = False, lastTimestamp = 0, deltaTime = 0,
      maxDelta = 0.1, animationCallbacks = [], physicsEnabled = True, trace = []\<rparr>"

text \<open>\<^verbatim>\<open>Map.prototype.set\<close>: an existing key keeps its position and gets the new
  value, a new key is appended.\<close>

fun map_set :: "string \<Rightarrow> 'v \<Rightarrow> (string \<times> 'v) list \<Rightarrow> (string \<times> 'v) list" where
  "map_set k v [] = [(k, v)]"
| "map_set k v ((k', v') # m) = (if k' = k then (k, v) # m else (k', v') # map_set k v m)"

text \<open>\<^verbatim>\<open>x || d\<close> for an optional property holding a function or an easing name.\<close>

definition or_default :: "'a option \<Rightarrow> 'a \<Rightarrow> 'a" where
  "or_default x d = (case x of Some v \<Rightarrow> v | None \<Rightarrow> d)"

text \<open>The object literal of \<^verbatim>\<open>createAnimation\<close>: the spread \<^verbatim>\<open>...config\<close> comes
  first, and every property written after it overrides the config's.\<close>

definition new_animation :: "config \<Rightarrow> tween" where
  "new_animation cfg =
     \<lparr>fromVal = cfg_from cfg,
      toVal = cfg_to cfg,
      duration = cfg_duration cfg,
      currentValue = cfg_currentValue cfg,
      currentTime = 0,
      progress = Fin 0,
      isPlaying = False,
      isComplete = False,
      reverse = False,
      yoyo = False,
      repeat = 0,
      repeatCount = 0,
      onUpdate = or_default (cfg_onUpdate cfg) (\<lambda>v e. Returns),
      onComplete = or_default (cfg_onComplete cfg) (\<lambda>u. Returns),
      onStart = or_default (cfg_onStart cfg) (\<lambda>u. Returns),
      easing = getEasingFunction (or_default (cfg_easing cfg) EaseInOutQuad)\<rparr>"

definition createAnimation :: "string \<Rightarrow> config \<Rightarrow> controller \<Rightarrow> controller" where
  "createAnimation key cfg c = c\<lparr>animations := map_set key (new_animation cfg) (animations c)\<rparr>"

text \<open>\<^verbatim>\<open>playAnimation\<close>: an exception of \<^verbatim>\<open>onStart\<close> escapes to the caller, after the
  flags are set.\<close>

definition playAnimation :: "string \<Rightarrow> controller \<Rightarrow> controller outcome" where
  "playAnimation key c =
     (case map_of (animations c) key of
        None \<Rightarrow> Returned c
      | Some animation \<Rightarrow>
          (let a = animation\<lparr>isPlaying := True, isComplete := False\<rparr>;
               c' = c\<lparr>animations := map_set key a (animations c),
                      trace := trace c @ [Started key]\<rparr>
           in case onStart a () of Returns \<Rightarrow> Returned c' | Throws \<Rightarrow> Threw c'))"

subsection \<open>updateAnimations\<close>

text \<open>\<^verbatim>\<open>from + (to - from) * easedProgress\<close>\<close>

definition interpolate :: "jsnum \<Rightarrow> jsnum \<Rightarrow> jsnum \<Rightarrow> jsnum" where
  "interpolate f t e = num_add f (num_mul (num_sub t f) e)"

text \<open>The two branches that assign \<^verbatim>\<open>currentValue\<close>; there is no \<^verbatim>\<open>else\<close>.\<close>

definition update_value :: "jsnum \<Rightarrow> tween \<Rightarrow> tween" where
  "update_value easedProgress a =
     (case (fromVal a, toVal a) of
        (Num f, Num t) \<Rightarrow> a\<lparr>currentValue := Num (interpolate f t easedProgress)\<rparr>
      | (Arr fs, Arr ts) \<Rightarrow>
          a\<lparr>currentValue :=
              Arr (map (\<lambda>(fromVal, i). interpolate fromVal (index_num ts i) easedProgress)
                     (zip fs [0 ..< length fs]))\<rparr>
      | _ \<Rightarrow> a)"

text \<open>The completion check and its three branches, run after \<^verbatim>\<open>onUpdate\<close> returned.
  The result carries the events the step recorded.\<close>

definition finish_step :: "string \<Rightarrow> tween \<Rightarrow> (tween \<times> event list) outcome" where
  "finish_step key a =
     (if (\<not> reverse a \<and> num_ge (progress a) 1) \<or> (reverse a \<and> num_le (progress a) 0) then
        (if yoyo a then
           (let a1 = a\<lparr>reverse := \<not> reverse a\<rparr>
            in Returned (a1\<lparr>currentTime := (if reverse a1 then duration a1 else 0)\<rparr>, []))
         else if repeat a > repeatCount a then
           Returned (a\<lparr>repeatCount := repeatCount a + 1, currentTime := 0, progress := Fin 0\<rparr>, [])
         else
           (let a1 = a\<lparr>isComplete := True, isPlaying := False\<rparr>
            in case onComplete a1 () of
                 Returns \<Rightarrow> Returned (a1, [Completed key])
               | Throws \<Rightarrow> Threw (a1, [Completed key])))
      else Returned (a, []))"

text \<open>The first two assignments of the \<^verbatim>\<open>forEach\<close> callback: \<^verbatim>\<open>currentTime\<close> and
  \<^verbatim>\<open>progress\<close>.\<close>

definition advance_time :: "real \<Rightarrow> tween \<Rightarrow> tween" where
  "advance_time dt animation =
     (let a1 = animation\<lparr>currentTime :=
                 currentTime animation + dt * (if reverse animation then -1 else 1)\<rparr>
      in a1\<lparr>progress := clamped_ratio (currentTime a1) (duration a1)\<rparr>)"

text \<open>The body of the \<^verbatim>\<open>forEach\<close> callback of \<^verbatim>\<open>updateAnimations\<close> for one entry.
  Neither call of a user callback is inside a \<^verbatim>\<open>try\<close>.\<close>

definition update_animation :: "real \<Rightarrow> string \<Rightarrow> tween \<Rightarrow> (tween \<times> event list) outcome" where
  "update_animation dt key animation =
     (if \<not> isPlaying animation \<or> isComplete animation then Returned (animation, [])
      else
        (let a2 = advance_time dt animation;
             easedProgress = easing a2 (progress a2);
             a3 = update_value easedProgress a2;
             ev = Updated key (currentValue a3) easedProgress
         in case onUpdate a3 (currentValue a3) easedProgress of
              Throws \<Rightarrow> Threw (a3, [ev])
            | Returns \<Rightarrow>
                (case finish_step key a3 of
                   Returned (a4, evs) \<Rightarrow> Returned (a4, ev # evs)
                 | Threw (a4, evs) \<Rightarrow> Threw (a4, ev # evs))))"

text \<open>\<^verbatim>\<open>this.animations.forEach\<close>: the entries in insertion order. An exception ends
  the iteration; the entries after the throwing one are left as they were.\<close>

fun forEach_animation ::
  "real \<Rightarrow> (string \<times> tween) list \<Rightarrow> ((string \<times> tween) list \<times> event list) outcome" where
  "forEach_animation dt [] = Returned ([], [])"
| "forEach_animation dt ((key, animation) # rest) =
     (case update_animation dt key animation of
        Threw (a, evs) \<Rightarrow> Threw ((key, a) # rest, evs)
      | Returned (a, evs) \<Rightarrow>
          (case forEach_animation dt rest of
             Returned (rest', evs') \<Rightarrow> Returned ((key, a) # rest', evs @ evs')
           | Threw (rest', evs') \<Rightarrow> Threw ((key, a) # rest', evs @ evs')))"

definition updateAnimations :: "real \<Rightarrow> controller \<Rightarrow> controller outcome" where
  "updateAnimations dt c =
     (case forEach_animation dt (animations c) of
        Returned (m, evs) \<Rightarrow> Returned (c\<lparr>animations := m, trace := trace c @ evs\<rparr>)
      | Threw (m, evs) \<Rightarrow> Threw (c\<lparr>animations := m, trace := trace c @ evs\<rparr>))"

subsection \<open>The per-frame callback list\<close>

text \<open>\<^verbatim>\<open>array.splice(index, 1)\<close>: a negative index counts from the end, an index past
  the end removes nothing.\<close>

definition splice1 :: "int \<Rightarrow> 'a list \<Rightarrow> 'a list" where
  "splice1 index xs =
     (let len = int (length xs);
          start = nat (if index < 0 then max (len + index) 0 else min index len)
      in take start xs @ drop (Suc start) xs)"

text \<open>\<^verbatim>\<open>Array.prototype.forEach\<close> over \<^verbatim>\<open>animationCallbacks\<close>: the index runs from 0
  to the length the array had when the iteration started; an index the array no longer
  has is skipped; the element is read when its index is reached. The \<^verbatim>\<open>catch\<close> logs
  and splices the array at the current index.\<close>

function forEach_callback ::
  "nat \<Rightarrow> nat \<Rightarrow> real \<Rightarrow> real \<Rightarrow> callback list \<Rightarrow> callback list \<times> event list" where
  "forEach_callback index len dt timestamp cbs =
     (if len \<le> index then (cbs, [])
      else if length cbs \<le> index then forEach_callback (Suc index) len dt timestamp cbs
      else
        (let cb = cbs ! index
         in case cb_run cb dt timestamp of
              Returns \<Rightarrow>
                (let (cbs', evs) = forEach_callback (Suc index) len dt timestamp cbs
                 in (cbs', Invoked (cb_id cb) dt timestamp # evs))
            | Throws \<Rightarrow>
                (let (cbs', evs) =
                       forEach_callback (Suc index) len dt timestamp (splice1 (int index) cbs)
                 in (cbs', Invoked (cb_id cb) dt timestamp # ConsoleError (cb_id cb) # evs))))"
  by pat_completeness auto
termination
  by (relation "measure (\<lambda>(index, len, dt, timestamp, cbs). len - index)") auto

declare forEach_callback.simps [simp del]

definition executeAnimationCallbacks :: "real \<Rightarrow> real \<Rightarrow> controller \<Rightarrow> controller" where
  "executeAnimationCallbacks dt timestamp c =
     (let (cbs, evs) =
            forEach_callback 0 (length (animationCallbacks c)) dt timestamp (animationCallbacks c)
      in c\<lparr>animationCallbacks := cbs, trace := trace c @ evs\<rparr>)"

text \<open>\<^verbatim>\<open>addAnimationCallback\<close> returns the position of the pushed callback.\<close>

definition addAnimationCallback :: "callback \<Rightarrow> controller \<Rightarrow> int \<times> controller" where
  "addAnimationCallback cb c =
     (let c' = c\<lparr>animationCallbacks := animationCallbacks c @ [cb]\<rparr>
      in (int (length (animationCallbacks c')) - 1, c'))"

definition removeAnimationCallback :: "int \<Rightarrow> controller \<Rightarrow> controller" where
  "removeAnimationCallback index c =
     c\<lparr>animationCallbacks := splice1 index (animationCallbacks c)\<rparr>"

subsection \<open>The frame tick (the closure animate of initAnimationLoop)\<close>

text \<open>The first two statements of the closure: seeding \<^verbatim>\<open>lastTimestamp\<close> and computing
  \<^verbatim>\<open>deltaTime\<close>. \<^verbatim>\<open>!this.lastTimestamp\<close> holds when \<^verbatim>\<open>lastTimestamp\<close> is 0, the constructor's
  value. \<open>Returned\<close> means the tick reached \<^verbatim>\<open>requestAnimationFrame(animate)\<close>;
  \<open>Threw\<close> means an exception left the tick before, so no further frame is requested.\<close>

definition begin_frame :: "real \<Rightarrow> controller \<Rightarrow> controller" where
  "begin_frame timestamp c =
     (let c1 = (if lastTimestamp c = 0 then c\<lparr>lastTimestamp := timestamp\<rparr> else c)
      in c1\<lparr>deltaTime :=
              min ((timestamp - lastTimestamp c1) / 1000) (maxDelta c1) * timeScale c1\<rparr>)"

definition animate :: "real \<Rightarrow> controller \<Rightarrow> controller outcome" where
  "animate timestamp c =
     (let c2 = begin_frame timestamp c
      in if \<not> isPaused c2 then
           (case updateAnimations (deltaTime c2) c2 of
              Threw c3 \<Rightarrow> Threw c3
            | Returned c3 \<Rightarrow>
                Returned ((executeAnimationCallbacks (deltaTime c3) timestamp c3)
                            \<lparr>lastTimestamp := timestamp\<rparr>))
         else Returned (c2\<lparr>lastTimestamp := timestamp\<rparr>))"

text \<open>\<^verbatim>\<open>updateAnimations\<close> fed a list of deltas directly, as a test with a manual clock
  does.\<close>

fun feed_deltas :: "real list \<Rightarrow> controller \<Rightarrow> controller outcome" where
  "feed_deltas [] c = Returned c"
| "feed_deltas (dt # rest) c =
     (case updateAnimations dt c of
        Threw c' \<Rightarrow> Threw c'
      | Returned c' \<Rightarrow> feed_deltas rest c')"

subsection \<open>Pause, resume and sequences of calls\<close>

definition pauseAllAnimations :: "controller \<Rightarrow> controller" where
  "pauseAllAnimations c = c\<lparr>isPaused := True\<rparr>"

text \<open>\<^verbatim>\<open>resumeAllAnimations\<close> clears the flag and requests a frame again.\<close>

definition resumeAllAnimations :: "controller \<Rightarrow> controller" where
  "resumeAllAnimations c = c\<lparr>isPaused := False\<rparr>"

text \<open>What the page and the browser do to a controller: the public calls, and a frame
  at a timestamp. A call that throws leaves the state as mutated so far, and later calls
  act on that state.\<close>

datatype call =
    CreateAnimation string config
  | PlayAnimation string
  | Frame real
  | PauseAll
  | ResumeAll

fun do_call :: "call \<Rightarrow> controller \<Rightarrow> controller outcome" where
  "do_call (CreateAnimation key cfg) c = Returned (createAnimation key cfg c)"
| "do_call (PlayAnimation key) c = playAnimation key c"
| "do_call (Frame timestamp) c = animate timestamp c"
| "do_call PauseAll c = Returned (pauseAllAnimations c)"
| "do_call ResumeAll c = Returned (resumeAllAnimations c)"

fun run_calls :: "call list \<Rightarrow> controller \<Rightarrow> controller" where
  "run_calls [] c = c"
| "run_calls (x # xs) c = run_calls xs (state_of (do_call x c))"

subsection \<open>Observations and example inputs\<close>

text \<open>Key, progress, \<^verbatim>\<open>isPlaying\<close> and \<^verbatim>\<open>isComplete\<close> of every registered tween.\<close>

definition observe :: "controller \<Rightarrow> (string \<times> jsnum \<times> bool \<times> bool) list" where
  "observe c = map (\<lambda>(key, a). (key, progress a, isPlaying a, isComplete a)) (animations c)"

text \<open>How often \<^verbatim>\<open>onComplete\<close> of the tween \<open>key\<close> was invoked.\<close>

definition completions :: "string \<Rightarrow> event list \<Rightarrow> nat" where
  "completions key evs = length (filter (\<lambda>e. e = Completed key) evs)"

text \<open>A tween that the next tick advances.\<close>

definition active :: "string \<Rightarrow> controller \<Rightarrow> bool" where
  "active key c =
     (case map_of (animations c) key of
        Some a \<Rightarrow> isPlaying a \<and> \<not> isComplete a
      | None \<Rightarrow> False)"

text \<open>\<^verbatim>\<open>{from: 0, to: 1, duration: d}\<close>\<close>

definition scalar_config :: "real \<Rightarrow> config" where
  "scalar_config d =
     \<lparr>cfg_from = Num (Fin 0), cfg_to = Num (Fin 1), cfg_duration = d,
      cfg_currentValue = Undefined, cfg_easing = None, cfg_onUpdate = None,
      cfg_onComplete = None, cfg_onStart = None, cfg_yoyo = None, cfg_repeat = None\<rparr>"

text \<open>\<^verbatim>\<open>{from: 0, to: 1, duration: 1.0, easing: 'easeInOutQuad'}\<close>\<close>

definition fade_config :: config where
  "fade_config = (scalar_config 1)\<lparr>cfg_easing := Some EaseInOutQuad\<rparr>"

text \<open>\<^verbatim>\<open>{from: 0, to: 1, duration: 1, yoyo: true, repeat: r}\<close>\<close>

definition yoyo_config :: "int \<Rightarrow> config" where
  "yoyo_config r = (scalar_config 1)\<lparr>cfg_yoyo := Some True, cfg_repeat := Some r\<rparr>"

text \<open>A config whose \<^verbatim>\<open>onUpdate\<close> always throws.\<close>

definition throwing_config :: config where
  "throwing_config = (scalar_config 1)\<lparr>cfg_onUpdate := Some (\<lambda>v e. Throws)\<rparr>"

text \<open>Per-frame callbacks: one that returns, one that throws.\<close>

definition quiet_callback :: "nat \<Rightarrow> callback" where
  "quiet_callback n = \<lparr>cb_id = n, cb_run = (\<lambda>dt timestamp. Returns)\<rparr>"

definition throwing_callback :: "nat \<Rightarrow> callback" where
  "throwing_callback n = \<lparr>cb_id = n, cb_run = (\<lambda>dt timestamp. Throws)\<rparr>"

text \<open>The shapes for which \<^verbatim>\<open>updateAnimations\<close> assigns \<^verbatim>\<open>currentValue\<close>.\<close>

definition both_numbers_or_arrays :: "tween \<Rightarrow> bool" where
  "both_numbers_or_arrays a =
     (case (fromVal a, toVal a) of
        (Num f, Num t) \<Rightarrow> True
      | (Arr fs, Arr ts) \<Rightarrow> True
      | _ \<Rightarrow> False)"


text \<open>A call that neither plays nor registers the tween \<open>key\<close>.\<close>

definition leaves_alone :: "string \<Rightarrow> call \<Rightarrow> bool" where
  "leaves_alone key x =
     (case x of
        CreateAnimation key' cfg \<Rightarrow> key' \<noteq> key
      | PlayAnimation key' \<Rightarrow> key' \<noteq> key
      | _ \<Rightarrow> True)"

text \<open>\<^verbatim>\<open>{from: 0, to: [1, 2], duration: 1}\<close>, registered and played.\<close>

definition mixed_tween :: tween where
  "mixed_tween = (new_animation ((scalar_config 1)\<lparr>cfg_to := Arr [Fin 1, Fin 2]\<rparr>))
     \<lparr>isPlaying := True, isComplete := False\<rparr>"

text \<open>A tween that the next tick advances; \<open>active\<close> above says it of a key.\<close>

definition live :: "tween \<Rightarrow> bool" where
  "live a = (isPlaying a \<and> \<not> isComplete a)"

definition live_in :: "string \<Rightarrow> (string \<times> tween) list \<Rightarrow> bool" where
  "live_in key m = (case map_of m key of Some a \<Rightarrow> live a | None \<Rightarrow> False)"



definition keys_distinct :: "controller \<Rightarrow> bool" where
  "keys_distinct c = distinct (map fst (animations c))"

text \<open>What a run from \<open>c\<close> to \<open>c'\<close> that leaves \<open>key\<close> alone does to the number of
  invocations of its \<^verbatim>\<open>onComplete\<close>: one more when the tween went from active to not
  active, none otherwise; a tween that is not active does not become active.\<close>

definition counted :: "string \<Rightarrow> controller \<Rightarrow> controller \<Rightarrow> bool" where
  "counted key c c' =
     (keys_distinct c' \<and>
      completions key (trace c') =
        completions key (trace c) + (if active key c \<and> \<not> active key c' then 1 else 0) \<and>
      (if active key c' then active key c else True))"

section \<open>Facts about the embedding\<close>

lemma update_value_fields [simp]:
  "progress (update_value e a) = progress a"
  "duration (update_value e a) = duration a"
  "isPlaying (update_value e a) = isPlaying a"
  "isComplete (update_value e a) = isComplete a"
  "reverse (update_value e a) = reverse a"
  "yoyo (update_value e a) = yoyo a"
  "repeat (update_value e a) = repeat a"
  "repeatCount (update_value e a) = repeatCount a"
  "onUpdate (update_value e a) = onUpdate a"
  "onComplete (update_value e a) = onComplete a"
  "currentTime (update_value e a) = currentTime a"
  by (simp_all add: update_value_def split: prod.splits jsval.splits)

lemma advance_time_fields [simp]:
  "duration (advance_time dt a) = duration a"
  "isPlaying (advance_time dt a) = isPlaying a"
  "isComplete (advance_time dt a) = isComplete a"
  "reverse (advance_time dt a) = reverse a"
  "yoyo (advance_time dt a) = yoyo a"
  "onUpdate (advance_time dt a) = onUpdate a"
  "onComplete (advance_time dt a) = onComplete a"
  "easing (advance_time dt a) = easing a"
  "fromVal (advance_time dt a) = fromVal a"
  "toVal (advance_time dt a) = toVal a"
  "currentValue (advance_time dt a) = currentValue a"
  "currentTime (advance_time dt a) = currentTime a + dt * (if reverse a then -1 else 1)"
  "progress (advance_time dt a) =
     clamped_ratio (currentTime a + dt * (if reverse a then -1 else 1)) (duration a)"
  by (simp_all add: advance_time_def Let_def)

text \<open>The state a step of one tween ends in, whether it returned or threw.\<close>

lemma update_animation_not_live: "\<not> live a \<Longrightarrow> update_animation dt k a = Returned (a, [])"
  by (auto simp add: update_animation_def live_def)

lemma update_animation_live:
  assumes "live a"
  shows "state_of (update_animation dt k a) =
     (let a3 = update_value (easing a (progress (advance_time dt a))) (advance_time dt a);
          ev = Updated k (currentValue a3) (easing a (progress (advance_time dt a)))
      in if onUpdate a (currentValue a3) (easing a (progress (advance_time dt a))) = Throws
         then (a3, [ev])
         else (fst (state_of (finish_step k a3)), ev # snd (state_of (finish_step k a3))))"
  using assms
  by (auto simp add: update_animation_def live_def Let_def split: cb_result.splits outcome.splits)

lemma forEach_animation_Cons:
  "state_of (forEach_animation dt ((k, a) # rest)) =
     (if threw (update_animation dt k a)
      then ((k, fst (state_of (update_animation dt k a))) # rest,
            snd (state_of (update_animation dt k a)))
      else ((k, fst (state_of (update_animation dt k a))) # fst (state_of (forEach_animation dt rest)),
            snd (state_of (update_animation dt k a)) @ snd (state_of (forEach_animation dt rest))))"
  by (simp split: outcome.splits prod.splits)

lemma updateAnimations_frame [simp]:
  "timeScale (state_of (updateAnimations dt c)) = timeScale c"
  "maxDelta (state_of (updateAnimations dt c)) = maxDelta c"
  "lastTimestamp (state_of (updateAnimations dt c)) = lastTimestamp c"
  "deltaTime (state_of (updateAnimations dt c)) = deltaTime c"
  "isPaused (state_of (updateAnimations dt c)) = isPaused c"
  "animations (state_of (updateAnimations dt c)) = fst (state_of (forEach_animation dt (animations c)))"
  "trace (state_of (updateAnimations dt c)) = trace c @ snd (state_of (forEach_animation dt (animations c)))"
  by (simp_all add: updateAnimations_def split: outcome.splits prod.splits)

lemma executeAnimationCallbacks_frame [simp]:
  "animations (executeAnimationCallbacks dt timestamp c) = animations c"
  "timeScale (executeAnimationCallbacks dt timestamp c) = timeScale c"
  "maxDelta (executeAnimationCallbacks dt timestamp c) = maxDelta c"
  "lastTimestamp (executeAnimationCallbacks dt timestamp c) = lastTimestamp c"
  "deltaTime (executeAnimationCallbacks dt timestamp c) = deltaTime c"
  "trace (executeAnimationCallbacks dt timestamp c) =
     trace c @ snd (forEach_callback 0 (length (animationCallbacks c)) dt timestamp (animationCallbacks c))"
  by (simp_all add: executeAnimationCallbacks_def case_prod_beta)

lemma begin_frame_fields [simp]:
  "animations (begin_frame timestamp c) = animations c"
  "trace (begin_frame timestamp c) = trace c"
  "timeScale (begin_frame timestamp c) = timeScale c"
  "maxDelta (begin_frame timestamp c) = maxDelta c"
  "isPaused (begin_frame timestamp c) = isPaused c"
  by (simp_all add: begin_frame_def Let_def)

lemma begin_frame_clock:
  "lastTimestamp (begin_frame timestamp c) = (if lastTimestamp c = 0 then timestamp else lastTimestamp c)"
  "deltaTime (begin_frame timestamp c) =
     min ((timestamp - (if lastTimestamp c = 0 then timestamp else lastTimestamp c)) / 1000) (maxDelta c)
       * timeScale c"
  by (simp_all add: begin_frame_def Let_def)

text \<open>The state a frame ends in.\<close>

lemma animate_state:
  "state_of (animate timestamp c) =
     (let c2 = begin_frame timestamp c; r = updateAnimations (deltaTime c2) c2
      in if isPaused c then c2\<lparr>lastTimestamp := timestamp\<rparr>
         else if threw r then state_of r
         else (executeAnimationCallbacks (deltaTime c2) timestamp (state_of r))\<lparr>lastTimestamp := timestamp\<rparr>)"
proof (cases "updateAnimations (deltaTime (begin_frame timestamp c)) (begin_frame timestamp c)")
  case (Returned c3)
  have "deltaTime (state_of (updateAnimations (deltaTime (begin_frame timestamp c)) (begin_frame timestamp c)))
      = deltaTime (begin_frame timestamp c)"
    by (rule updateAnimations_frame)
  then have "deltaTime c3 = deltaTime (begin_frame timestamp c)" using Returned by simp
  then show ?thesis using Returned by (simp add: animate_def Let_def)
next
  case (Threw c3)
  then show ?thesis by (simp add: animate_def Let_def)
qed

lemma map_set_fst: "fst ` set (map_set k v m) = insert k (fst ` set m)"
  by (induction k v m rule: map_set.induct) (simp_all add: insert_commute)

lemma map_set_keys: "distinct (map fst m) \<Longrightarrow> distinct (map fst (map_set k v m))"
  by (induction k v m rule: map_set.induct) (auto simp add: map_set_fst)

lemma map_of_map_set: "map_of (map_set k v m) k' = (if k' = k then Some v else map_of m k')"
  by (induction m) auto



lemma playAnimation_state:
  "state_of (playAnimation key c) =
     (case map_of (animations c) key of
        None \<Rightarrow> c
      | Some a \<Rightarrow> c\<lparr>animations := map_set key (a\<lparr>isPlaying := True, isComplete := False\<rparr>) (animations c),
                    trace := trace c @ [Started key]\<rparr>)"
  by (simp add: playAnimation_def Let_def split: option.splits cb_result.splits)

subsection \<open>Progress stays in the unit interval\<close>











subsection \<open>Counting onComplete\<close>

lemma completions_simps [simp]:
  "completions key [] = 0"
  "completions key (xs @ ys) = completions key xs + completions key ys"
  "completions key (Completed key' # xs) = (if key' = key then 1 else 0) + completions key xs"
  "completions key (Updated key' v e # xs) = completions key xs"
  "completions key (Started key' # xs) = completions key xs"
  "completions key (Invoked n dt ts # xs) = completions key xs"
  "completions key (ConsoleError n # xs) = completions key xs"
  by (auto simp add: completions_def)

lemma finish_step_completions:
  "live a \<Longrightarrow>
   completions key (snd (state_of (finish_step k a))) =
     (if key = k \<and> \<not> live (fst (state_of (finish_step k a))) then 1 else 0)"
  by (simp add: finish_step_def live_def Let_def split: cb_result.splits)

lemma update_animation_completions:
  "completions key (snd (state_of (update_animation dt k a))) =
     (if key = k \<and> live a \<and> \<not> live (fst (state_of (update_animation dt k a))) then 1 else 0)"
proof (cases "live a")
  case False
  then show ?thesis by (simp add: update_animation_not_live)
next
  case True
  have "live (update_value e (advance_time dt a))" for e
    using True by (simp add: live_def)
  then show ?thesis
    using True by (simp add: update_animation_live Let_def finish_step_completions)
qed

lemma forEach_animation_absent:
  "key \<notin> fst ` set m \<Longrightarrow> completions key (snd (state_of (forEach_animation dt m))) = 0"
proof (induction m)
  case Nil
  then show ?case by simp
next
  case (Cons p rest)
  obtain k a where p: "p = (k, a)" by (cases p)
  show ?case
    using Cons unfolding p forEach_animation_Cons
    by (simp add: update_animation_completions)
qed

lemma live_in_Cons [simp]:
  "live_in key ((k, a) # rest) = (if key = k then live a else live_in key rest)"
  by (simp add: live_in_def)

lemma forEach_animation_completions:
  "distinct (map fst m) \<Longrightarrow>
   completions key (snd (state_of (forEach_animation dt m))) =
     (if live_in key m \<and> \<not> live_in key (fst (state_of (forEach_animation dt m))) then 1 else 0)
   \<and> (if live_in key (fst (state_of (forEach_animation dt m))) then live_in key m else True)"
proof (induction m)
  case Nil
  then show ?case by (simp add: live_in_def)
next
  case (Cons p rest)
  obtain k a where p: "p = (k, a)" by (cases p)
  have d: "distinct (map fst rest)" and nk: "k \<notin> fst ` set rest"
    using Cons.prems p by auto
  have nl: "\<not> live a \<Longrightarrow> update_animation dt k a = Returned (a, [])"
    by (rule update_animation_not_live)
  have ih: "completions key (snd (state_of (forEach_animation dt rest))) =
     (if live_in key rest \<and> \<not> live_in key (fst (state_of (forEach_animation dt rest))) then 1 else 0)
     \<and> (if live_in key (fst (state_of (forEach_animation dt rest))) then live_in key rest else True)"
    using Cons.IH d by simp
  show ?case
  proof (cases "key = k")
    case True
    have ab: "completions k (snd (state_of (forEach_animation dt rest))) = 0"
      using nk forEach_animation_absent [of k rest dt] by simp
    show ?thesis
    proof (cases "live a")
      case False
      then show ?thesis
        using True ab nl unfolding p forEach_animation_Cons
        by simp
    next
      case live: True
      then show ?thesis
        using True ab unfolding p forEach_animation_Cons
        by (simp add: update_animation_completions)
    qed
  next
    case False
    then show ?thesis
      using ih unfolding p forEach_animation_Cons
      by (auto simp add: update_animation_completions split: if_splits)
  qed
qed

lemma forEach_animation_keys:
  "map fst (fst (state_of (forEach_animation dt m))) = map fst m"
proof (induction m)
  case Nil
  then show ?case by simp
next
  case (Cons p rest)
  obtain k a where p: "p = (k, a)" by (cases p)
  show ?case
    using Cons unfolding p forEach_animation_Cons by simp
qed

lemma forEach_callback_completions:
  "completions key (snd (forEach_callback index len dt timestamp cbs)) = 0"
proof (induction index len dt timestamp cbs rule: forEach_callback.induct)
  case (1 index len dt timestamp cbs)
  show ?case
    using 1
    by (subst forEach_callback.simps) (auto simp add: Let_def split: cb_result.splits prod.splits)
qed

lemma active_live_in: "active key c = live_in key (animations c)"
  by (simp add: active_def live_in_def live_def split: option.splits)

lemma counted_refl: "keys_distinct c \<Longrightarrow> counted key c c"
  by (simp add: counted_def)

lemma counted_trans: "counted key c c1 \<Longrightarrow> counted key c1 c2 \<Longrightarrow> counted key c c2"
  by (auto simp add: counted_def split: if_splits)

lemma animate_counted:
  "keys_distinct c \<Longrightarrow> counted key c (state_of (animate timestamp c))"
  using forEach_animation_completions
    [of "animations c" key "deltaTime (begin_frame timestamp c)"]
  by (simp add: animate_state Let_def counted_def keys_distinct_def active_live_in
      forEach_animation_keys forEach_callback_completions)

lemma createAnimation_counted:
  "keys_distinct c \<Longrightarrow> k \<noteq> key \<Longrightarrow> counted key c (createAnimation k cfg c)"
  by (simp add: counted_def keys_distinct_def createAnimation_def map_set_keys active_def
      map_of_map_set)

lemma playAnimation_keys:
  "keys_distinct c \<Longrightarrow> keys_distinct (state_of (playAnimation k c))"
  by (cases "map_of (animations c) k")
    (simp_all add: keys_distinct_def playAnimation_state map_set_keys)

lemma playAnimation_other:
  "k \<noteq> key \<Longrightarrow> active key (state_of (playAnimation k c)) = active key c"
  "completions key (trace (state_of (playAnimation k c))) = completions key (trace c)"
  by (cases "map_of (animations c) k"; simp add: playAnimation_state active_def map_of_map_set)+

lemma playAnimation_counted:
  "keys_distinct c \<Longrightarrow> k \<noteq> key \<Longrightarrow> counted key c (state_of (playAnimation k c))"
  by (simp add: counted_def playAnimation_keys playAnimation_other)

lemma do_call_counted:
  "keys_distinct c \<Longrightarrow> leaves_alone key x \<Longrightarrow> counted key c (state_of (do_call x c))"
  by (cases x)
    (simp_all add: createAnimation_counted playAnimation_counted animate_counted leaves_alone_def,
     simp_all add: counted_def keys_distinct_def pauseAllAnimations_def resumeAllAnimations_def
       active_def)

lemma run_calls_counted:
  "keys_distinct c \<Longrightarrow> list_all (leaves_alone key) calls \<Longrightarrow> counted key c (run_calls calls c)"
proof (induction calls arbitrary: c)
  case Nil
  then show ?case by (simp add: counted_refl)
next
  case (Cons x xs)
  have s1: "counted key c (state_of (do_call x c))"
    using Cons.prems by (simp add: do_call_counted)
  then have "keys_distinct (state_of (do_call x c))"
    by (simp add: counted_def)
  then have "counted key (state_of (do_call x c)) (run_calls xs (state_of (do_call x c)))"
    using Cons.IH Cons.prems by simp
  with s1 show ?case by (auto intro: counted_trans)
qed

lemma do_call_keys: "keys_distinct c \<Longrightarrow> keys_distinct (state_of (do_call x c))"
proof (cases x)
  case (Frame t)
  assume "keys_distinct c"
  then have "counted [] c (state_of (animate t c))" by (rule animate_counted)
  then show ?thesis using Frame by (simp add: counted_def)
qed (simp_all add: playAnimation_keys, simp_all add: keys_distinct_def createAnimation_def
      map_set_keys pauseAllAnimations_def resumeAllAnimations_def)

lemma run_calls_keys: "keys_distinct c \<Longrightarrow> keys_distinct (run_calls calls c)"
  by (induction calls arbitrary: c) (simp_all add: do_call_keys)

subsection \<open>Callback handles\<close>

lemma addAnimationCallback_position:
  "addAnimationCallback cb c =
     (int (length (animationCallbacks c)), c\<lparr>animationCallbacks := animationCallbacks c @ [cb]\<rparr>)"
  by (simp add: addAnimationCallback_def Let_def)

lemma splice1_nat: "splice1 (int i) xs = take i xs @ drop (Suc i) xs"
  by (simp add: splice1_def Let_def min_def)

lemma splice1_shifts: "i < j \<Longrightarrow> j < length xs \<Longrightarrow> splice1 (int i) xs ! (j - 1) = xs ! j"
proof -
  assume ij: "i < j" and j: "j < length xs"
  have len: "length (take i xs) = i" using ij j by simp
  have nlt: "\<not> j - 1 < length (take i xs)" using ij len by arith
  have "(take i xs @ drop (Suc i) xs) ! (j - 1) =
      drop (Suc i) xs ! (j - 1 - length (take i xs))"
    using nlt by (simp only: nth_append if_False)
  also have "\<dots> = drop (Suc i) xs ! (j - 1 - i)"
    by (simp only: len)
  also have "\<dots> = xs ! (Suc i + (j - 1 - i))"
    using ij j by (intro nth_drop) simp
  also have "Suc i + (j - 1 - i) = j" using ij by simp
  finally show ?thesis by (simp add: splice1_nat)
qed

subsection \<open>The frame clock\<close>

text \<open>With \<^verbatim>\<open>lastTimestamp\<close> other than 0, a frame computes its \<^verbatim>\<open>deltaTime\<close> from the
  gap to \<^verbatim>\<open>lastTimestamp\<close>; a frame that returns leaves its timestamp there.\<close>

lemma deltaTime_of_frame:
  "lastTimestamp c \<noteq> 0 \<Longrightarrow>
   deltaTime (state_of (animate timestamp c)) =
     min ((timestamp - lastTimestamp c) / 1000) (maxDelta c) * timeScale c"
  by (simp add: animate_state Let_def begin_frame_clock)

lemma lastTimestamp_after_frame:
  "returned (animate timestamp c) \<Longrightarrow> lastTimestamp (state_of (animate timestamp c)) = timestamp"
  by (auto simp add: animate_def Let_def split: if_splits outcome.splits)

subsection \<open>Facts about createAnimation and the yoyo branch\<close>

lemma new_animation_yoyo_repeat: "yoyo (new_animation cfg) = False \<and> repeat (new_animation cfg) = 0"
  by (simp add: new_animation_def)

text \<open>The yoyo branch of \<^verbatim>\<open>updateAnimations\<close> itself never completes a tween whose
  \<^verbatim>\<open>yoyo\<close> property is set.\<close>

lemma yoyo_tween_never_completes:
  "yoyo a \<Longrightarrow> \<not> isComplete a \<Longrightarrow> \<not> isComplete (fst (state_of (update_animation dt key a)))"
proof (cases "live a")
  case False
  assume "\<not> isComplete a"
  then show ?thesis using False by (simp add: update_animation_not_live)
next
  case True
  assume y: "yoyo a" and nc: "\<not> isComplete a"
  have "\<not> isComplete (fst (state_of (finish_step key b)))" if "yoyo b" "\<not> isComplete b" for b
    using that by (simp add: finish_step_def Let_def)
  then show ?thesis
    using True y nc by (simp add: update_animation_live Let_def)
qed

section \<open>The claims\<close>

lemmas run_defs = createAnimation_def new_animation_def new_controller_def playAnimation_def
  updateAnimations_def update_animation_def advance_time_def update_value_def finish_step_def
  clamped_ratio_def interpolate_def getEasingFunction_def easingFunctions_def
  or_default_def easeInOutQuad_def observe_def Let_def scalar_config_def

text \<open>
  Claim C1 says that the tween registered by \<^verbatim>\<open>createAnimation(key, config)\<close> has the
  \<^verbatim>\<open>yoyo\<close> and \<^verbatim>\<open>repeat\<close> of its config. The code does otherwise: registering
  \<^verbatim>\<open>{from: 0, to: 1, duration: 1, yoyo: true, repeat: 2}\<close> under the key \<open>pulse\<close> gives a
  tween with \<^verbatim>\<open>yoyo = false\<close> and \<^verbatim>\<open>repeat = 0\<close>.
\<close>

theorem createAnimation_resets_yoyo_and_repeat:
  "map (\<lambda>(key, a). (key, yoyo a, repeat a))
     (animations (createAnimation ''pulse'' (yoyo_config 2) new_controller)) =
   [(''pulse'', False, 0)]"
  by (simp add: run_defs yoyo_config_def)

text \<open>
  Claim C2 says that an exception of a tween's \<^verbatim>\<open>onUpdate\<close> is caught and the other
  playing tweens still advance in the same tick. The code does otherwise: with two playing
  tweens \<open>a\<close> and \<open>b\<close>, \<open>a\<close> registered first and its \<^verbatim>\<open>onUpdate\<close> throwing,
  \<^verbatim>\<open>updateAnimations(0.05)\<close> throws, \<open>b\<close> keeps \<^verbatim>\<open>currentTime = 0\<close>, its
  \<^verbatim>\<open>onUpdate\<close> is not invoked, and the frame that runs the tick throws as well.
\<close>

theorem onUpdate_throw_aborts_tick:
  "let c1 = createAnimation ''b'' (scalar_config 1)
              (createAnimation ''a'' throwing_config new_controller);
       c2 = state_of (playAnimation ''b'' (state_of (playAnimation ''a'' c1)));
       r = updateAnimations 0.05 c2
   in observe c2 = [(''a'', Fin 0, True, False), (''b'', Fin 0, True, False)] \<and>
      threw r \<and>
      map (\<lambda>(key, a). (key, currentTime a)) (animations (state_of r)) = [(''a'', 0.05), (''b'', 0)] \<and>
      trace (state_of r) =
        [Started ''a'', Started ''b'', Updated ''a'' (Num (Fin 0.005)) (Fin 0.005)] \<and>
      threw (animate 16 c2)"
  by (simp add: run_defs throwing_config_def animate_def begin_frame_def)

text \<open>
  Claim C3 says that a throwing per-frame callback is removed and that every other callback
  of the list is still invoked in the tick of the throw. The code removes the throwing
  callback, but skips the callback that follows it: with the callbacks 1 (throwing), 2 and 3
  registered in this order, the tick invokes 1 and 3, and leaves 2 and 3 registered.
\<close>

theorem throwing_callback_skips_next:
  "let c = new_controller\<lparr>animationCallbacks :=
             [throwing_callback 1, quiet_callback 2, quiet_callback 3]\<rparr>;
       c' = executeAnimationCallbacks 0.016 1000 c
   in trace c' = [Invoked 1 0.016 1000, ConsoleError 1, Invoked 3 0.016 1000] \<and>
      map cb_id (animationCallbacks c') = [2, 3]"
  by (simp add: executeAnimationCallbacks_def new_controller_def throwing_callback_def
      quiet_callback_def splice1_def Let_def forEach_callback.simps)




text \<open>
  Claim C5: after \<^verbatim>\<open>createAnimation('fade', {from: 0, to: 1, duration: 1.0, easing:
  'easeInOutQuad'})\<close> and \<^verbatim>\<open>playAnimation('fade')\<close>, ticks with the deltas 0, 0.5 and 0.5
  give progress 0 after the first, progress 0.5 and eased progress 0.5 after the second,
  progress 1 and \<^verbatim>\<open>isComplete\<close> after the third, and \<^verbatim>\<open>onComplete\<close> is invoked exactly
  once over the three ticks.
\<close>

theorem fade_scenario:
  "let c1 = state_of (playAnimation ''fade'' (createAnimation ''fade'' fade_config new_controller));
       r2 = updateAnimations 0 c1; c2 = state_of r2;
       r3 = updateAnimations 0.5 c2; c3 = state_of r3;
       r4 = updateAnimations 0.5 c3; c4 = state_of r4
   in returned r2 \<and> returned r3 \<and> returned r4 \<and>
      observe c2 = [(''fade'', Fin 0, True, False)] \<and>
      observe c3 = [(''fade'', Fin 0.5, True, False)] \<and>
      observe c4 = [(''fade'', Fin 1, False, True)] \<and>
      trace c4 =
        [Started ''fade'',
         Updated ''fade'' (Num (Fin 0)) (Fin 0),
         Updated ''fade'' (Num (Fin 0.5)) (Fin 0.5),
         Updated ''fade'' (Num (Fin 1)) (Fin 1),
         Completed ''fade''] \<and>
      completions ''fade'' (trace c4) = 1"
  by (simp add: run_defs fade_config_def)

text \<open>
  Claim C6, as amended: \<^verbatim>\<open>onComplete\<close> of a tween is invoked exactly once each time the
  tween goes from playing to complete. Over any sequence of frames and calls that neither
  plays nor registers the tween's key, the number of invocations grows by one when the tween
  was active before and is not active after, and does not grow otherwise. (The claim as
  stated fails: \<^verbatim>\<open>playAnimation\<close> on a completed tween clears \<^verbatim>\<open>isComplete\<close>, and the
  next tick completes the tween again.)
\<close>

theorem onComplete_once_per_play:
  assumes "list_all (leaves_alone key) calls"
  shows "completions key (trace (run_calls calls (run_calls before new_controller))) =
         completions key (trace (run_calls before new_controller)) +
           (if active key (run_calls before new_controller) \<and>
               \<not> active key (run_calls calls (run_calls before new_controller))
            then 1 else 0)"
proof -
  have "keys_distinct new_controller"
    by (simp add: keys_distinct_def new_controller_def)
  then have "keys_distinct (run_calls before new_controller)"
    by (rule run_calls_keys)
  then have "counted key (run_calls before new_controller)
     (run_calls calls (run_calls before new_controller))"
    using assms by (rule run_calls_counted)
  then show ?thesis by (simp add: counted_def)
qed

theorem onComplete_once_per_play_witness:
  "list_all (leaves_alone ''blink'') [Frame 1000, Frame 1100, Frame 1200] \<and>
   completions ''blink'' (trace (run_calls [Frame 1000, Frame 1100, Frame 1200]
     (run_calls [CreateAnimation ''blink'' (scalar_config 0.1), PlayAnimation ''blink'']
        new_controller))) = 1"
proof -
  let ?before = "[CreateAnimation ''blink'' (scalar_config 0.1), PlayAnimation ''blink'']"
  let ?calls = "[Frame 1000, Frame 1100, Frame 1200]"
  have h: "list_all (leaves_alone ''blink'') ?calls"
    by (simp add: leaves_alone_def)
  have c0: "completions ''blink'' (trace (run_calls ?before new_controller)) = 0"
    by (simp add: run_defs)
  have a0: "active ''blink'' (run_calls ?before new_controller)"
    by (simp add: run_defs active_def)
  have a1: "\<not> active ''blink'' (run_calls ?calls (run_calls ?before new_controller))"
    by (simp add: run_defs active_def animate_def begin_frame_def
        executeAnimationCallbacks_def forEach_callback.simps)
  from onComplete_once_per_play [OF h, of "?before"] c0 a0 a1 h show ?thesis
    by simp
qed

text \<open>The claim C6 as stated fails: a tween of duration 0.1 is played and completes at the
  frame 100 ms after the first; it is played again, and the next frame invokes
  \<^verbatim>\<open>onComplete\<close> a second time.\<close>

theorem onComplete_fires_twice:
  "completions ''blink''
     (trace (run_calls
        [CreateAnimation ''blink'' (scalar_config 0.1), PlayAnimation ''blink'',
         Frame 1000, Frame 1100, PlayAnimation ''blink'', Frame 1200] new_controller)) = 2"
  by (simp add: run_defs animate_def begin_frame_def executeAnimationCallbacks_def
      forEach_callback.simps completions_def)

text \<open>
  Claim C7 says that for every pair of consecutive ticks \<open>g\<close> seconds apart the
  \<^verbatim>\<open>deltaTime\<close> of the later tick is \<open>min(g, 0.1) * timeScale\<close>. The code does otherwise
  when the earlier tick is at timestamp 0: that tick leaves \<^verbatim>\<open>lastTimestamp = 0\<close>, the
  guard \<^verbatim>\<open>!this.lastTimestamp\<close> of the later tick, 5 seconds after it, takes the 0 for
  a clock that was never seeded and seeds it again, and \<^verbatim>\<open>deltaTime\<close> is 0, not
  \<open>min(5, 0.1) * timeScale = 0.1\<close>.
\<close>

theorem deltaTime_zero_after_timestamp_zero:
  "returned (animate 0 new_controller) \<and>
   returned (animate 5000 (state_of (animate 0 new_controller))) \<and>
   deltaTime (state_of (animate 5000 (state_of (animate 0 new_controller)))) = 0 \<and>
   min 5 (maxDelta new_controller) * timeScale new_controller = 0.1"
  by (simp add: animate_def begin_frame_def new_controller_def updateAnimations_def
      executeAnimationCallbacks_def forEach_callback.simps Let_def)

text \<open>
  Claim C8 says that a tween created with \<^verbatim>\<open>yoyo: true\<close>, \<^verbatim>\<open>repeat: 0\<close> and duration 1,
  played and run for 2 seconds of ticks, returns to a progress near 0 and never completes.
  The code does otherwise: \<^verbatim>\<open>createAnimation\<close> registers the tween with
  \<^verbatim>\<open>yoyo = false\<close>, so after four ticks of 0.25 s the tween is complete with progress 1,
  and it still is after four more.
\<close>

theorem yoyo_config_completes:
  "let c1 = state_of (playAnimation ''pulse''
              (createAnimation ''pulse'' (yoyo_config 0) new_controller));
       r4 = feed_deltas [0.25, 0.25, 0.25, 0.25] c1;
       r8 = feed_deltas [0.25, 0.25, 0.25, 0.25] (state_of r4)
   in returned r4 \<and> returned r8 \<and>
      observe (state_of r4) = [(''pulse'', Fin 1, False, True)] \<and>
      observe (state_of r8) = [(''pulse'', Fin 1, False, True)]"
  by (simp add: run_defs yoyo_config_def)

text \<open>
  Claim C9: for a playing tween whose \<^verbatim>\<open>from\<close> and \<^verbatim>\<open>to\<close> are neither both numbers
  nor both arrays, a tick leaves \<^verbatim>\<open>currentValue\<close> as it was, invokes \<^verbatim>\<open>onUpdate\<close> with
  that value, and raises no error of its own: it returns whenever the callbacks return.
\<close>

theorem mismatched_shapes_keep_currentValue:
  assumes "\<not> both_numbers_or_arrays a" and "isPlaying a" and "\<not> isComplete a"
  shows "let e = easing a (clamped_ratio (currentTime a + dt * (if reverse a then -1 else 1)) (duration a));
             r = update_animation dt key a
         in currentValue (fst (state_of r)) = currentValue a \<and>
            take 1 (snd (state_of r)) = [Updated key (currentValue a) e] \<and>
            (if onUpdate a (currentValue a) e = Returns \<and> onComplete a () = Returns
             then returned r else True)"
proof -
  have l: "live a" using assms by (simp add: live_def)
  have uv: "update_value e (advance_time dt a) = advance_time dt a" for e
    using assms(1)
    by (simp add: update_value_def both_numbers_or_arrays_def split: prod.splits jsval.splits)
  have fs: "currentValue (fst (state_of (finish_step key b))) = currentValue b" for b
    by (simp add: finish_step_def Let_def split: cb_result.splits)
  have fr: "onComplete b () = Returns \<Longrightarrow> returned (finish_step key b)" for b
    by (simp add: finish_step_def Let_def)
  have st: "currentValue (fst (state_of (update_animation dt key a))) = currentValue a \<and>
      take 1 (snd (state_of (update_animation dt key a))) =
        [Updated key (currentValue a) (easing a (progress (advance_time dt a)))]"
    using l by (simp add: update_animation_live uv fs Let_def)
  have rt: "onUpdate a (currentValue a) (easing a (progress (advance_time dt a))) = Returns \<Longrightarrow>
      onComplete a () = Returns \<Longrightarrow> returned (update_animation dt key a)"
    using assms(2,3) fr [of "advance_time dt a"]
    by (auto simp add: update_animation_def uv Let_def split: outcome.splits cb_result.splits)
  show ?thesis
    using st rt by (simp add: Let_def)
qed


theorem mismatched_shapes_keep_currentValue_witness:
  "\<not> both_numbers_or_arrays mixed_tween \<and> isPlaying mixed_tween \<and> \<not> isComplete mixed_tween \<and>
   currentValue mixed_tween = Undefined \<and>
   currentValue (fst (state_of (update_animation 0.05 ''mixed'' mixed_tween))) = Undefined \<and>
   take 1 (snd (state_of (update_animation 0.05 ''mixed'' mixed_tween))) =
     [Updated ''mixed'' Undefined (Fin 0.005)] \<and>
   returned (update_animation 0.05 ''mixed'' mixed_tween)"
proof -
  have h1: "\<not> both_numbers_or_arrays mixed_tween"
    by (simp add: both_numbers_or_arrays_def mixed_tween_def new_animation_def scalar_config_def)
  have h2: "isPlaying mixed_tween" and h3: "\<not> isComplete mixed_tween"
    by (simp_all add: mixed_tween_def)
  have v: "currentValue mixed_tween = Undefined"
    by (simp add: mixed_tween_def new_animation_def scalar_config_def)
  have e: "easing mixed_tween (clamped_ratio (currentTime mixed_tween +
      0.05 * (if reverse mixed_tween then -1 else 1)) (duration mixed_tween)) = Fin 0.005"
    by (simp add: mixed_tween_def new_animation_def scalar_config_def or_default_def
        getEasingFunction_def easingFunctions_def clamped_ratio_def easeInOutQuad_def)
  have cb: "onUpdate mixed_tween Undefined (Fin 0.005) = Returns" "onComplete mixed_tween () = Returns"
    by (simp_all add: mixed_tween_def new_animation_def scalar_config_def or_default_def)
  from mismatched_shapes_keep_currentValue [OF h1 h2 h3, where dt = "0.05" and key = "''mixed''"] h1 h2 h3 v e cb
  show ?thesis
    by (simp add: Let_def)
qed

text \<open>
  Claim C10: there is a sequence of \<^verbatim>\<open>addAnimationCallback\<close> and
  \<^verbatim>\<open>removeAnimationCallback\<close> calls in which \<^verbatim>\<open>removeAnimationCallback(handle)\<close> removes
  a callback other than the one whose registration returned the handle. Three callbacks A,
  B and C are registered; removing A by its handle moves B and C one position down, and
  removing by the handle of B (position 1) then removes C, while B stays registered.
\<close>

theorem handle_removes_other_callback:
  "\<exists>A B C. cb_id B \<noteq> cb_id C \<and>
     (let (hA, c1) = addAnimationCallback A new_controller;
          (hB, c2) = addAnimationCallback B c1;
          (hC, c3) = addAnimationCallback C c2;
          c4 = removeAnimationCallback hA c3;
          c5 = removeAnimationCallback hB c4
      in hB = 1 \<and>
         animationCallbacks c3 = [A, B, C] \<and>
         animationCallbacks c4 = [B, C] \<and>
         animationCallbacks c5 = [B])"
proof (intro exI conjI)
  show "cb_id (quiet_callback 2) \<noteq> cb_id (quiet_callback 3)"
    by (simp add: quiet_callback_def)
  show "let (hA, c1) = addAnimationCallback (quiet_callback 1) new_controller;
          (hB, c2) = addAnimationCallback (quiet_callback 2) c1;
          (hC, c3) = addAnimationCallback (quiet_callback 3) c2;
          c4 = removeAnimationCallback hA c3;
          c5 = removeAnimationCallback hB c4
      in hB = 1 \<and>
         animationCallbacks c3 = [quiet_callback 1, quiet_callback 2, quiet_callback 3] \<and>
         animationCallbacks c4 = [quiet_callback 2, quiet_callback 3] \<and>
         animationCallbacks c5 = [quiet_callback 2]"
    by (simp add: addAnimationCallback_position removeAnimationCallback_def new_controller_def
        splice1_nat [of 0, simplified] splice1_nat [of 1, simplified])
qed

end
